theory Spec2Isabelle
  imports Complex_Main "HOL-Library.Sublist"
begin

section \<open>The monday.com reader (llama\_hub/mondaydotcom/base.py)\<close>

text \<open>
  The source file holds two definitions of the class \<open>MondayReader\<close>, one after the
  other; the second one (lines 101--226) rebinds the name and is the class a caller
  gets. Both are embedded here: the effective one under the source's names, the
  shadowed one (lines 9--88) with the suffix \<open>1\<close>. The helper methods
  \<open>_parse_item_values\<close> and \<open>_parse_data\<close> have the same text in both
  classes and are embedded once.
\<close>

subsection \<open>Python values\<close>

text \<open>
  What \<open>response.json()\<close> and \<open>json.loads\<close> return: \<open>None\<close>, a bool, an int,
  a float, a str, a list or a dict with string keys. A dict is kept as the list of its
  entries in insertion order and is read by first match. A float is a real number
  (NaN and the infinities are left out).
\<close>

datatype json =
    JNull
  | JBool bool
  | JInt int
  | JFloat real
  | JStr string
  | JArr "json list"
  | JObj "(string \<times> json) list"

text \<open>A subscript is a string key (\<open>x["data"]\<close>) or the integer 0 (\<open>x[0]\<close>).\<close>

datatype pykey = KStr string | KInt int

text \<open>
  The exceptions the reader can end with. \<open>RequestError\<close> is whatever
  \<open>requests.post(...)\<close> or \<open>response.json()\<close> raises and \<open>JSONDecodeError\<close>
  whatever \<open>json.loads\<close> raises; both carry the collaborator's own description.
\<close>

datatype error =
    AssertionError string
  | UnboundLocalError string
  | KeyError pykey
  | IndexError
  | TypeError
  | RequestError string
  | JSONDecodeError string

text \<open>\<open>x[k]\<close> for a string key \<open>k\<close>: only a dict accepts it.\<close>

fun subscr :: "json \<Rightarrow> string \<Rightarrow> error + json" where
  "subscr (JObj kvs) k =
     (case map_of kvs k of None \<Rightarrow> Inl (KeyError (KStr k)) | Some v \<Rightarrow> Inr v)"
| "subscr _ k = Inl TypeError"

text \<open>
  \<open>x[0]\<close>: the first element of a list, the first character of a str, the entry
  under the key 0 of a dict (a dict read from JSON has string keys only).
\<close>

fun subscr0 :: "json \<Rightarrow> error + json" where
  "subscr0 (JArr []) = Inl IndexError"
| "subscr0 (JArr (x # xs)) = Inr x"
| "subscr0 (JStr []) = Inl IndexError"
| "subscr0 (JStr (c # cs)) = Inr (JStr [c])"
| "subscr0 (JObj kvs) = Inl (KeyError (KInt 0))"
| "subscr0 _ = Inl TypeError"

text \<open>The keys of a dict, each once, in the order of first insertion.\<close>

definition dict_keys :: "(string \<times> json) list \<Rightarrow> string list" where
  "dict_keys kvs = rev (remdups (rev (map fst kvs)))"

text \<open>
  \<open>list(x)\<close>, which is also what a \<open>for\<close> loop over \<open>x\<close> runs through: the elements of
  a list, the keys of a dict, the characters of a str; nothing else is iterable.
\<close>

fun py_list :: "json \<Rightarrow> error + json list" where
  "py_list (JArr xs) = Inr xs"
| "py_list (JObj kvs) = Inr (map JStr (dict_keys kvs))"
| "py_list (JStr s) = Inr (map (\<lambda>c. JStr [c]) s)"
| "py_list _ = Inl TypeError"

text \<open>\<open>k in x\<close> for a str \<open>k\<close>: key of a dict, element of a list, substring of a str.\<close>

fun py_in :: "string \<Rightarrow> json \<Rightarrow> error + bool" where
  "py_in k (JObj kvs) = Inr (k \<in> set (map fst kvs))"
| "py_in k (JArr xs) = Inr (JStr k \<in> set xs)"
| "py_in k (JStr s) = Inr (sublist k s)"
| "py_in k _ = Inl TypeError"

text \<open>The truth value of \<open>if x:\<close>.\<close>

fun truthy :: "json \<Rightarrow> bool" where
  "truthy JNull = False"
| "truthy (JBool b) = b"
| "truthy (JInt i) = (i \<noteq> 0)"
| "truthy (JFloat r) = (r \<noteq> 0)"
| "truthy (JStr s) = (s \<noteq> [])"
| "truthy (JArr xs) = (xs \<noteq> [])"
| "truthy (JObj kvs) = (kvs \<noteq> [])"

text \<open>
  \<open>a + b\<close> where one side is known to be a str: the other side must be a str too.
\<close>

fun str_add :: "string \<Rightarrow> json \<Rightarrow> error + string" where
  "str_add s (JStr t) = Inr (s @ t)"
| "str_add s _ = Inl TypeError"

fun add_str :: "json \<Rightarrow> string \<Rightarrow> error + string" where
  "add_str (JStr t) s = Inr (t @ s)"
| "add_str _ s = Inl TypeError"

text \<open>
  The replacement field \<open>{x}\<close> of an f-string is \<open>str(x)\<close>: a str stands for itself;
  the text of any other value is the interpreter's, taken as the parameter \<open>py_str\<close>.
\<close>

fun format_field :: "(json \<Rightarrow> string) \<Rightarrow> json \<Rightarrow> string" where
  "format_field py_str (JStr s) = s"
| "format_field py_str v = py_str v"

text \<open>\<open>sep.join(xs)\<close>.\<close>

fun join :: "string \<Rightarrow> string list \<Rightarrow> string" where
  "join sep [] = []"
| "join sep [x] = x"
| "join sep (x # y # ys) = x @ sep @ join sep (y # ys)"

text \<open>\<open>"%d" % n\<close>: the decimal numeral of an int.\<close>

definition digit_char :: "nat \<Rightarrow> char" where
  "digit_char d = char_of (48 + d)"

function string_of_nat :: "nat \<Rightarrow> string" where
  "string_of_nat n =
     (if n < 10 then [digit_char n] else string_of_nat (n div 10) @ [digit_char (n mod 10)])"
  by pat_completeness auto
termination
  by (relation "measure (\<lambda>n. n)") auto

declare string_of_nat.simps [simp del]

definition string_of_int :: "int \<Rightarrow> string" where
  "string_of_int i = (if i < 0 then ''-'' @ string_of_nat (nat (- i)) else string_of_nat (nat i))"

text \<open>\<open>list(map(f, xs))\<close> where \<open>f\<close> may raise: the first exception ends the call.\<close>

fun map_result :: "('a \<Rightarrow> error + 'b) \<Rightarrow> 'a list \<Rightarrow> error + 'b list" where
  "map_result f [] = Inr []"
| "map_result f (x # xs) =
     (case f x of
        Inl e \<Rightarrow> Inl e
      | Inr y \<Rightarrow> (case map_result f xs of Inl e \<Rightarrow> Inl e | Inr ys \<Rightarrow> Inr (y # ys)))"

text \<open>Sequencing of two steps either of which may raise.\<close>

definition and_then :: "error + 'a \<Rightarrow> ('a \<Rightarrow> error + 'b) \<Rightarrow> error + 'b" where
  "and_then m f = (case m of Inl e \<Rightarrow> Inl e | Inr v \<Rightarrow> f v)"

text \<open>
  The identifiers are \<open>int\<close> parameters with default \<open>None\<close>. \<open>if x: t else: e\<close>
  on an identifier takes the branch \<open>e\<close> for \<open>None\<close> and for 0; \<open>t\<close> may use the
  value of \<open>x\<close>.
\<close>

fun if_id :: "int option \<Rightarrow> (int \<Rightarrow> 'a) \<Rightarrow> 'a \<Rightarrow> 'a" where
  "if_id None t e = e"
| "if_id (Some n) t e = (if n \<noteq> 0 then t n else e)"

subsection \<open>The collaborators\<close>

text \<open>
  \<open>Document(text=..., extra_info=...)\<close> of llama\_index: the text and the metadata
  dict, kept as the list of its entries in the order the dict display writes them.
\<close>

record document =
  "text" :: string
  extra_info :: "(string \<times> json) list"

text \<open>
  \<open>requests.post(url=..., json=..., headers=...)\<close> followed by \<open>response.json()\<close>
  is one parameter of the model, the transport: it maps the request to the parsed body or
  to the description of what was raised. \<open>json.loads\<close> is a parameter of the same kind.
\<close>

record request =
  url :: string
  json_body :: "(string \<times> string) list"
  headers :: "(string \<times> string) list"

type_synonym transport = "request \<Rightarrow> string + json"

type_synonym decoder = "string \<Rightarrow> string + json"

definition send :: "transport \<Rightarrow> request \<Rightarrow> error + json" where
  "send post rq = (case post rq of Inl x \<Rightarrow> Inl (RequestError x) | Inr j \<Rightarrow> Inr j)"

text \<open>\<open>json.loads(x)\<close>: \<open>x\<close> must be a str (bytes do not occur in a parsed body).\<close>

fun json_loads :: "decoder \<Rightarrow> json \<Rightarrow> error + json" where
  "json_loads loads (JStr s) =
     (case loads s of Inl x \<Rightarrow> Inl (JSONDecodeError x) | Inr j \<Rightarrow> Inr j)"
| "json_loads loads _ = Inl TypeError"

subsection \<open>The reader\<close>

record reader =
  api_key :: string
  api_url :: string

definition MondayReader :: "string \<Rightarrow> reader" where
  "MondayReader key = \<lparr>api_key = key, api_url = ''https://api.monday.com/v2''\<rparr>"

text \<open>
  The dicts built by \<open>_parse_item_values\<close> (keys \<open>title\<close>, \<open>value\<close>) and
  \<open>_parse_data\<close> (keys \<open>id\<close>, \<open>name\<close>, \<open>values\<close>) have fixed keys and are records.
\<close>

record item_value =
  iv_title :: json
  iv_value :: json

record parsed_item =
  pi_id :: json
  pi_name :: json
  pi_values :: "item_value list"

definition parse_item_values :: "json \<Rightarrow> error + item_value" where
  "parse_item_values cv =
     and_then (subscr cv ''title'') (\<lambda>t.
     and_then (subscr cv ''text'') (\<lambda>x.
     Inr \<lparr>iv_title = t, iv_value = x\<rparr>))"

definition parse_data :: "json \<Rightarrow> error + parsed_item" where
  "parse_data item =
     and_then (subscr item ''id'') (\<lambda>i.
     and_then (subscr item ''name'') (\<lambda>n.
     and_then (subscr item ''column_values'') (\<lambda>cvs.
     and_then (py_list cvs) (\<lambda>l.
     and_then (map_result parse_item_values l) (\<lambda>vs.
     Inr \<lparr>pi_id = i, pi_name = n, pi_values = vs\<rparr>)))))"

text \<open>
  Lines 133--136: the value of \<open>text\<close> for one element of the delta list, before it is
  appended to the block's text.
\<close>

definition insert_text :: "json \<Rightarrow> error + json" where
  "insert_text ins =
     and_then (subscr ins ''insert'') (\<lambda>txt.
     and_then (py_in ''attributes'' ins) (\<lambda>has_attributes.
       if has_attributes then
         and_then (subscr ins ''attributes'') (\<lambda>attrs.
         and_then (py_in ''link'' attrs) (\<lambda>has_link.
           if has_link then
             and_then (add_str txt '' url: '') (\<lambda>t1.
             and_then (subscr ins ''attributes'') (\<lambda>attrs2.
             and_then (subscr attrs2 ''link'') (\<lambda>link.
             and_then (str_add t1 link) (\<lambda>t2.
             Inr (JStr t2)))))
           else Inr txt))
       else Inr txt))"

text \<open>The loop of \<open>_read_block\<close> (lines 132--137), from the text gathered so far.\<close>

fun read_inserts :: "string \<Rightarrow> json list \<Rightarrow> error + string" where
  "read_inserts block_text [] = Inr block_text"
| "read_inserts block_text (ins # rest) =
     and_then (insert_text ins) (\<lambda>txt.
     and_then (str_add block_text txt) (\<lambda>t.
     read_inserts (t @ [CHR '' '', CHR 0x09]) rest))"

definition read_block :: "decoder \<Rightarrow> json \<Rightarrow> error + string" where
  "read_block loads block =
     and_then (subscr block ''content'') (\<lambda>content.
     and_then (json_loads loads content) (\<lambda>parsed.
     and_then (subscr parsed ''deltaFormat'') (\<lambda>delta.
     and_then (py_list delta) (\<lambda>deltaFormat_array.
     read_inserts [] deltaFormat_array))))"

text \<open>The two query strings of the effective class (lines 145--160 and 163--180).\<close>

definition indent :: "nat \<Rightarrow> string \<Rightarrow> string" where
  "indent n s = replicate n (CHR '' '') @ s"

definition board_query :: "int \<Rightarrow> string" where
  "board_query board_id = join [CHR 0x0A]
     [ [],
       indent 16 ''query{'',
       indent 20 (''boards(ids: ['' @ string_of_int board_id @ '']){''),
       indent 24 ''name,'',
       indent 24 ''items{'',
       indent 28 ''id,'',
       indent 28 ''name,'',
       indent 28 ''column_values{'',
       indent 32 ''title,'',
       indent 32 ''text'',
       indent 28 ''}'',
       indent 24 ''}'',
       indent 20 ''}'',
       indent 16 ''} '' ]"

definition doc_query :: "int \<Rightarrow> string" where
  "doc_query doc_id = join [CHR 0x0A]
     [ [],
       indent 16 ''query{'',
       indent 16 (''docs (object_ids: ['' @ string_of_int doc_id @ ''], limit: 1) {''),
       indent 20 ''name'',
       indent 20 ''object_id'',
       indent 20 ''blocks{'',
       indent 28 ''id'',
       indent 28 ''type'',
       indent 28 ''content'',
       indent 24 ''}'',
       indent 20 ''created_by {'',
       indent 28 ''id'',
       indent 28 ''name'',
       indent 24 ''}'',
       indent 16 ''}'',
       indent 16 ''}'' ]"

text \<open>
  \<open>_perform_request\<close> (lines 141--185). The two tests are two separate \<open>if\<close>
  statements, so the second assignment to \<open>query\<close> replaces the first; \<open>query\<close> is
  read on line 182 whether or not it was assigned.
\<close>

definition perform_request ::
  "reader \<Rightarrow> transport \<Rightarrow> int option \<Rightarrow> int option \<Rightarrow> error + json" where
  "perform_request self post board_id doc_id =
     (let hdrs = [(''Authorization'', api_key self)];
          query = if_id board_id (\<lambda>b. Some (board_query b)) None;
          query = if_id doc_id (\<lambda>d. Some (doc_query d)) query
      in case query of
           None \<Rightarrow> Inl (UnboundLocalError ''query'')
         | Some q \<Rightarrow>
             send post \<lparr>url = api_url self, json_body = [(''query'', q)], headers = hdrs\<rparr>)"

text \<open>Lines 210--213: the text of one parsed item.\<close>

fun item_text :: "(json \<Rightarrow> string) \<Rightarrow> string \<Rightarrow> item_value list \<Rightarrow> string" where
  "item_text py_str txt [] = txt"
| "item_text py_str txt (iv # ivs) =
     item_text py_str
       (if truthy (iv_value iv)
        then txt @ '', '' @ format_field py_str (iv_title iv) @ '': ''
               @ format_field py_str (iv_value iv)
        else txt)
       ivs"

definition item_document :: "(json \<Rightarrow> string) \<Rightarrow> int \<Rightarrow> parsed_item \<Rightarrow> document" where
  "item_document py_str board_id item =
     \<lparr>text = item_text py_str (''name: '' @ format_field py_str (pi_name item)) (pi_values item),
      extra_info = [(''board_id'', JInt board_id), (''item_id'', pi_id item)]\<rparr>"

text \<open>Lines 204--218, the branch \<open>if board_id:\<close> of \<open>load_data\<close>.\<close>

definition board_branch :: "(json \<Rightarrow> string) \<Rightarrow> int \<Rightarrow> json \<Rightarrow> error + document list" where
  "board_branch py_str board_id json_response =
     and_then (subscr json_response ''data'') (\<lambda>d.
     and_then (subscr d ''boards'') (\<lambda>bs.
     and_then (subscr0 bs) (\<lambda>data.
     and_then (subscr data ''items'') (\<lambda>items_array.
     and_then (py_list items_array) (\<lambda>l.
     and_then (map_result parse_data l) (\<lambda>parsed_items.
     Inr (map (item_document py_str board_id) parsed_items)))))))"

text \<open>Lines 220--224, the branch \<open>elif doc_id:\<close> of \<open>load_data\<close>.\<close>

definition doc_branch :: "decoder \<Rightarrow> int \<Rightarrow> json \<Rightarrow> error + document list" where
  "doc_branch loads doc_id json_response =
     and_then (subscr json_response ''data'') (\<lambda>d.
     and_then (subscr d ''docs'') (\<lambda>ds.
     and_then (subscr0 ds) (\<lambda>data.
     and_then (subscr data ''blocks'') (\<lambda>bl.
     and_then (py_list bl) (\<lambda>blocks_array.
     and_then (map_result (read_block loads) blocks_array) (\<lambda>lines_arr.
     and_then (subscr data ''name'') (\<lambda>doc_name.
     and_then (subscr data ''created_by'') (\<lambda>creator.
     and_then (subscr creator ''name'') (\<lambda>creator_name.
     Inr [\<lparr>text = join [CHR '' '', CHR 0x0A] lines_arr,
           extra_info = [(''doc_id'', JInt doc_id), (''doc_name'', doc_name),
                         (''created_by'', creator_name)]\<rparr>])))))))))"

text \<open>\<open>load_data\<close> of the effective class (lines 187--226).\<close>

definition load_data ::
  "reader \<Rightarrow> transport \<Rightarrow> decoder \<Rightarrow> (json \<Rightarrow> string) \<Rightarrow> int option \<Rightarrow> int option
     \<Rightarrow> error + document list" where
  "load_data self post loads py_str board_id doc_id =
     (if \<not> (board_id \<noteq> None \<or> doc_id \<noteq> None)
      then Inl (AssertionError ''Either board_id or doc_id is required'')
      else
        and_then (perform_request self post board_id doc_id) (\<lambda>json_response.
          if_id board_id (\<lambda>b. board_branch py_str b json_response)
            (if_id doc_id (\<lambda>d. doc_branch loads d json_response)
               (Inl (UnboundLocalError ''result'')))))"

subsection \<open>The shadowed first class (lines 9--88)\<close>

definition board_query1 :: "int \<Rightarrow> string" where
  "board_query1 board_id = join [CHR 0x0A]
     [ [],
       indent 12 ''query{'',
       indent 16 (''boards(ids: ['' @ string_of_int board_id @ '']){''),
       indent 20 ''name,'',
       indent 20 ''items{'',
       indent 24 ''id,'',
       indent 24 ''name,'',
       indent 24 ''column_values{'',
       indent 28 ''title,'',
       indent 28 ''text'',
       indent 24 ''}'',
       indent 20 ''}'',
       indent 16 ''}'',
       indent 12 ''} '' ]"

definition perform_request1 :: "reader \<Rightarrow> transport \<Rightarrow> int \<Rightarrow> error + json" where
  "perform_request1 self post board_id =
     send post \<lparr>url = api_url self, json_body = [(''query'', board_query1 board_id)],
                headers = [(''Authorization'', api_key self)]\<rparr>"

text \<open>
  \<open>load_data\<close> of the first class (lines 60--88). Line 73 reads \<open>board_data["name"]\<close>
  and drops the value.
\<close>

definition load_data1 ::
  "reader \<Rightarrow> transport \<Rightarrow> (json \<Rightarrow> string) \<Rightarrow> int \<Rightarrow> error + document list" where
  "load_data1 self post py_str board_id =
     and_then (perform_request1 self post board_id) (\<lambda>json_response.
     and_then (subscr json_response ''data'') (\<lambda>d.
     and_then (subscr d ''boards'') (\<lambda>bs.
     and_then (subscr0 bs) (\<lambda>board_data.
     and_then (subscr board_data ''name'') (\<lambda>_.
     and_then (subscr board_data ''items'') (\<lambda>its.
     and_then (py_list its) (\<lambda>items_array.
     and_then (py_list (JArr items_array)) (\<lambda>l.
     and_then (map_result parse_data l) (\<lambda>parsed_items.
     Inr (map (item_document py_str board_id) parsed_items))))))))))"

subsection \<open>Responses of the expected shape\<close>

text \<open>
  The board query asks for the items of the board and, for each item, its \<open>id\<close>,
  its \<open>name\<close> and the \<open>title\<close> and \<open>text\<close> of each column value. In the service's
  schema names and titles are strings and a column's text is a string or null. The
  typed view of such an answer, and what it means for a parsed body to carry it (the body
  may hold further keys, in any order):
\<close>

record column =
  col_title :: string
  col_text :: "string option"

record board_item =
  item_id :: json
  item_name :: string
  item_columns :: "column list"

definition text_json :: "column \<Rightarrow> json" where
  "text_json c = (case col_text c of None \<Rightarrow> JNull | Some s \<Rightarrow> JStr s)"

definition column_json :: "json \<Rightarrow> column \<Rightarrow> bool" where
  "column_json j c \<longleftrightarrow>
     subscr j ''title'' = Inr (JStr (col_title c)) \<and> subscr j ''text'' = Inr (text_json c)"

definition item_json :: "json \<Rightarrow> board_item \<Rightarrow> bool" where
  "item_json j it \<longleftrightarrow>
     subscr j ''id'' = Inr (item_id it) \<and>
     subscr j ''name'' = Inr (JStr (item_name it)) \<and>
     (case subscr j ''column_values'' of
        Inr (JArr cvs) \<Rightarrow> list_all2 column_json cvs (item_columns it)
      | _ \<Rightarrow> False)"

text \<open>\<open>json_response["data"]["boards"][0]\<close> and \<open>json_response["data"]["docs"][0]\<close>.\<close>

definition first_of :: "string \<Rightarrow> json \<Rightarrow> error + json" where
  "first_of kind json_response =
     and_then (subscr json_response ''data'') (\<lambda>d.
     and_then (subscr d kind) subscr0)"

text \<open>The items of the first board of a response, as \<open>list(...)\<close> walks them.\<close>

definition items_of :: "json \<Rightarrow> error + json list" where
  "items_of json_response =
     and_then (first_of ''boards'' json_response) (\<lambda>board.
     and_then (subscr board ''items'') py_list)"

definition board_json :: "json \<Rightarrow> board_item list \<Rightarrow> bool" where
  "board_json json_response items \<longleftrightarrow>
     (case first_of ''boards'' json_response of
        Inr board \<Rightarrow>
          (case subscr board ''items'' of
             Inr (JArr js) \<Rightarrow> list_all2 item_json js items
           | _ \<Rightarrow> False)
      | _ \<Rightarrow> False)"

text \<open>
  The text the specification gives to an item: \<open>name: <name>\<close>, then
  \<open>, <title>: <value>\<close> for each column whose value is non-empty, in the order of the
  response.
\<close>

definition column_part :: "column \<Rightarrow> string" where
  "column_part c =
     (case col_text c of
        None \<Rightarrow> []
      | Some s \<Rightarrow> if s = [] then [] else '', '' @ col_title c @ '': '' @ s)"

definition spec_item_text :: "board_item \<Rightarrow> string" where
  "spec_item_text it = ''name: '' @ item_name it @ concat (map column_part (item_columns it))"

text \<open>
  The doc query asks for the doc's \<open>name\<close>, its blocks and the creator. The content of
  a block is a string that \<open>json.loads\<close> turns into a dict whose \<open>deltaFormat\<close> is the
  list of insert operations; an operation has its \<open>insert\<close> text and may have an
  \<open>attributes\<close> dict, which may have a \<open>link\<close>.
\<close>

record delta_op =
  op_insert :: string
  op_link :: "string option"

record typed_doc =
  td_name :: json
  td_creator :: json
  td_blocks :: "delta_op list list"

definition op_json :: "json \<Rightarrow> delta_op \<Rightarrow> bool" where
  "op_json j op \<longleftrightarrow>
     (case j of
        JObj kvs \<Rightarrow>
          map_of kvs ''insert'' = Some (JStr (op_insert op)) \<and>
          (case map_of kvs ''attributes'' of
             None \<Rightarrow> op_link op = None
           | Some (JObj attrs) \<Rightarrow> map_of attrs ''link'' = map_option JStr (op_link op)
           | Some _ \<Rightarrow> False)
      | _ \<Rightarrow> False)"

definition block_json :: "decoder \<Rightarrow> json \<Rightarrow> delta_op list \<Rightarrow> bool" where
  "block_json loads j ops \<longleftrightarrow>
     (case and_then (subscr j ''content'') (json_loads loads) of
        Inr parsed \<Rightarrow>
          (case subscr parsed ''deltaFormat'' of
             Inr (JArr js) \<Rightarrow> list_all2 op_json js ops
           | _ \<Rightarrow> False)
      | _ \<Rightarrow> False)"

definition doc_json :: "decoder \<Rightarrow> json \<Rightarrow> typed_doc \<Rightarrow> bool" where
  "doc_json loads json_response td \<longleftrightarrow>
     (case first_of ''docs'' json_response of
        Inr data \<Rightarrow>
          subscr data ''name'' = Inr (td_name td) \<and>
          and_then (subscr data ''created_by'') (\<lambda>c. subscr c ''name'') = Inr (td_creator td) \<and>
          (case subscr data ''blocks'' of
             Inr (JArr bs) \<Rightarrow> list_all2 (block_json loads) bs (td_blocks td)
           | _ \<Rightarrow> False)
      | _ \<Rightarrow> False)"

text \<open>The text of one operation: its insert text, then \<open> url: <link>\<close> if it has a link.\<close>

definition op_text :: "delta_op \<Rightarrow> string" where
  "op_text op = op_insert op @ (case op_link op of None \<Rightarrow> [] | Some l \<Rightarrow> '' url: '' @ l)"

text \<open>
  The text of a doc as the specification words it: the operations of a block joined by a
  tab, the blocks joined by a newline.
\<close>

definition spec_doc_text :: "delta_op list list \<Rightarrow> string" where
  "spec_doc_text blocks =
     join [CHR 0x0A] (map (\<lambda>ops. join [CHR 0x09] (map op_text ops)) blocks)"

text \<open>
  The text of a doc as lines 137 and 223 build it: each operation's text followed by a
  space and a tab, the blocks joined by a space and a newline.
\<close>

definition block_text :: "delta_op list \<Rightarrow> string" where
  "block_text ops = concat (map (\<lambda>op. op_text op @ [CHR '' '', CHR 0x09]) ops)"

definition document_text :: "delta_op list list \<Rightarrow> string" where
  "document_text blocks = join [CHR '' '', CHR 0x0A] (map block_text blocks)"

text \<open>The requests that carry the two queries.\<close>

definition board_request :: "reader \<Rightarrow> int \<Rightarrow> request" where
  "board_request self board_id =
     \<lparr>url = api_url self, json_body = [(''query'', board_query board_id)],
      headers = [(''Authorization'', api_key self)]\<rparr>"

definition doc_request :: "reader \<Rightarrow> int \<Rightarrow> request" where
  "doc_request self doc_id =
     \<lparr>url = api_url self, json_body = [(''query'', doc_query doc_id)],
      headers = [(''Authorization'', api_key self)]\<rparr>"

definition board_request1 :: "reader \<Rightarrow> int \<Rightarrow> request" where
  "board_request1 self board_id =
     \<lparr>url = api_url self, json_body = [(''query'', board_query1 board_id)],
      headers = [(''Authorization'', api_key self)]\<rparr>"

definition precondition_error :: "error + document list" where
  "precondition_error = Inl (AssertionError ''Either board_id or doc_id is required'')"

subsection \<open>Sample data\<close>

text \<open>A board with two items; the first has an empty and a null column value.\<close>

definition sample_items :: "board_item list" where
  "sample_items =
     [\<lparr>item_id = JStr ''101'', item_name = ''Write'',
       item_columns = [\<lparr>col_title = ''Status'', col_text = Some ''Done''\<rparr>,
                       \<lparr>col_title = ''Owner'', col_text = Some []\<rparr>,
                       \<lparr>col_title = ''Due'', col_text = None\<rparr>,
                       \<lparr>col_title = ''Notes'', col_text = Some ''soon''\<rparr>]\<rparr>,
      \<lparr>item_id = JStr ''102'', item_name = ''Review'', item_columns = []\<rparr>]"

definition sample_board :: "json" where
  "sample_board =
     JObj [(''name'', JStr ''Tasks''),
           (''items'', JArr
              [JObj [(''id'', JStr ''101''), (''name'', JStr ''Write''),
                     (''column_values'', JArr
                        [JObj [(''title'', JStr ''Status''), (''text'', JStr ''Done'')],
                         JObj [(''title'', JStr ''Owner''), (''text'', JStr [])],
                         JObj [(''title'', JStr ''Due''), (''text'', JNull)],
                         JObj [(''title'', JStr ''Notes''), (''text'', JStr ''soon'')]])],
               JObj [(''id'', JStr ''102''), (''name'', JStr ''Review''),
                     (''column_values'', JArr [])]])]"

definition sample_board_response :: "json" where
  "sample_board_response =
     JObj [(''data'', JObj [(''boards'', JArr [sample_board])]), (''account_id'', JInt 7)]"

text \<open>A doc with two blocks; the second operation of the first block has a link.\<close>

definition sample_doc :: "typed_doc" where
  "sample_doc =
     \<lparr>td_name = JStr ''Plan'', td_creator = JStr ''Ada'',
      td_blocks = [[\<lparr>op_insert = ''Hello'', op_link = None\<rparr>,
                    \<lparr>op_insert = ''site'', op_link = Some ''http://x''\<rparr>],
                   [\<lparr>op_insert = ''Bye'', op_link = None\<rparr>]]\<rparr>"

definition sample_doc_response :: "json" where
  "sample_doc_response =
     JObj [(''data'', JObj [(''docs'', JArr
        [JObj [(''name'', JStr ''Plan''), (''object_id'', JStr ''67890''),
               (''blocks'', JArr
                  [JObj [(''id'', JStr ''b1''), (''type'', JStr ''normal text''),
                         (''content'', JStr ''c1'')],
                   JObj [(''id'', JStr ''b2''), (''type'', JStr ''normal text''),
                         (''content'', JStr ''c2'')]]),
               (''created_by'', JObj [(''id'', JStr ''9''), (''name'', JStr ''Ada'')])]])]),
           (''account_id'', JInt 7)]"

text \<open>What \<open>json.loads\<close> makes of the two block contents of the sample doc.\<close>

definition sample_loads :: "decoder" where
  "sample_loads s =
     (if s = ''c1'' then
        Inr (JObj [(''alignment'', JStr ''left''),
                   (''deltaFormat'', JArr
                      [JObj [(''insert'', JStr ''Hello'')],
                       JObj [(''insert'', JStr ''site''),
                             (''attributes'', JObj [(''link'', JStr ''http://x'')])]])])
      else if s = ''c2'' then
        Inr (JObj [(''deltaFormat'', JArr
                      [JObj [(''insert'', JStr ''Bye''),
                             (''attributes'', JObj [(''bold'', JBool True)])]])])
      else Inl ''Expecting value'')"

text \<open>\<open>str\<close> on the values without parts; the samples format nothing else.\<close>

definition str_atoms :: "json \<Rightarrow> string" where
  "str_atoms v =
     (case v of
        JNull \<Rightarrow> ''None''
      | JBool b \<Rightarrow> (if b then ''True'' else ''False'')
      | JInt i \<Rightarrow> string_of_int i
      | JStr s \<Rightarrow> s
      | _ \<Rightarrow> [])"

text \<open>
  Three transports: one that answers every request with the sample board, one that
  answers every request with the sample doc, and one that answers the query it is sent
  the way the service does: a doc for the doc query, a board for a board query.
\<close>

definition board_server :: "transport" where
  "board_server rq = Inr sample_board_response"

definition doc_server :: "transport" where
  "doc_server rq = Inr sample_doc_response"

definition query_server :: "transport" where
  "query_server rq =
     (if json_body rq = [(''query'', doc_query 67890)] then Inr sample_doc_response
      else if json_body rq = [(''query'', board_query 12345)] then Inr sample_board_response
      else if json_body rq = [(''query'', board_query1 12345)] then Inr sample_board_response
      else Inl ''HTTP 400'')"

text \<open>The answer for a board that carries no \<open>name\<close>.\<close>

definition nameless_board_response :: "json" where
  "nameless_board_response =
     JObj [(''data'', JObj [(''boards'', JArr [JObj [(''items'', JArr [])]])])]"

definition nameless_server :: "transport" where
  "nameless_server rq = Inr nameless_board_response"







section \<open>Properties\<close>

subsection \<open>Auxiliary facts\<close>

lemma and_then_Inl [simp]: "and_then (Inl e) f = Inl e"
  by (simp add: and_then_def)

lemma and_then_Inr [simp]: "and_then (Inr v) f = f v"
  by (simp add: and_then_def)

lemma map_result_columns:
  "list_all2 column_json cvs cols \<Longrightarrow>
   map_result parse_item_values cvs =
     Inr (map (\<lambda>c. \<lparr>iv_title = JStr (col_title c), iv_value = text_json c\<rparr>) cols)"
proof (induction rule: list_all2_induct)
  case Nil
  show ?case by simp
next
  case (Cons j js c cs)
  from Cons.hyps(1) have "parse_item_values j =
      Inr \<lparr>iv_title = JStr (col_title c), iv_value = text_json c\<rparr>"
    by (simp add: column_json_def parse_item_values_def)
  with Cons.IH show ?case by simp
qed

lemma parse_data_item:
  assumes "item_json j it"
  shows "parse_data j =
     Inr \<lparr>pi_id = item_id it, pi_name = JStr (item_name it),
          pi_values = map (\<lambda>c. \<lparr>iv_title = JStr (col_title c), iv_value = text_json c\<rparr>)
                        (item_columns it)\<rparr>"
proof -
  from assms obtain cvs where cvs: "subscr j ''column_values'' = Inr (JArr cvs)"
    and cols: "list_all2 column_json cvs (item_columns it)"
    by (auto simp: item_json_def split: sum.splits json.splits)
  from assms have "subscr j ''id'' = Inr (item_id it)" "subscr j ''name'' = Inr (JStr (item_name it))"
    by (simp_all add: item_json_def)
  then show ?thesis
    by (simp add: parse_data_def cvs map_result_columns [OF cols])
qed

lemma item_text_step:
  "item_text py_str s (\<lparr>iv_title = JStr (col_title c), iv_value = text_json c\<rparr> # ivs)
     = item_text py_str (s @ column_part c) ivs"
  by (cases "col_text c") (simp_all add: text_json_def column_part_def)

lemma item_text_columns:
  "item_text py_str s (map (\<lambda>c. \<lparr>iv_title = JStr (col_title c), iv_value = text_json c\<rparr>) cols)
     = s @ concat (map column_part cols)"
proof (induction cols arbitrary: s)
  case Nil
  show ?case by simp
next
  case (Cons c cs)
  have "item_text py_str s
          (map (\<lambda>c. \<lparr>iv_title = JStr (col_title c), iv_value = text_json c\<rparr>) (c # cs))
        = item_text py_str (s @ column_part c)
          (map (\<lambda>c. \<lparr>iv_title = JStr (col_title c), iv_value = text_json c\<rparr>) cs)"
    by (simp only: list.map item_text_step)
  also have "\<dots> = (s @ column_part c) @ concat (map column_part cs)"
    by (rule Cons.IH)
  finally show ?case by simp
qed

lemma item_document_item:
  assumes "item_json j it"
  shows "and_then (parse_data j) (\<lambda>p. Inr (item_document py_str b p)) =
     Inr \<lparr>text = spec_item_text it, extra_info = [(''board_id'', JInt b), (''item_id'', item_id it)]\<rparr>"
  by (simp add: parse_data_item [OF assms] item_document_def item_text_columns spec_item_text_def)

lemma map_result_items:
  "list_all2 item_json js items \<Longrightarrow>
   and_then (map_result parse_data js) (\<lambda>ps. Inr (map (item_document py_str b) ps)) =
     Inr (map (\<lambda>it. \<lparr>text = spec_item_text it,
                       extra_info = [(''board_id'', JInt b), (''item_id'', item_id it)]\<rparr>) items)"
proof (induction rule: list_all2_induct)
  case Nil
  show ?case by simp
next
  case (Cons j js it its)
  from Cons.IH obtain ps where ps: "map_result parse_data js = Inr ps"
    by (cases "map_result parse_data js") simp_all
  with Cons.IH item_document_item [OF Cons.hyps(1), of py_str b] show ?case
    by (cases "parse_data j") simp_all
qed

lemma board_branch_typed:
  assumes "board_json r items"
  shows "board_branch py_str b r =
     Inr (map (\<lambda>it. \<lparr>text = spec_item_text it,
                       extra_info = [(''board_id'', JInt b), (''item_id'', item_id it)]\<rparr>) items)"
proof -
  from assms obtain board js where
    fb: "first_of ''boards'' r = Inr board" and
    its: "subscr board ''items'' = Inr (JArr js)" and
    all: "list_all2 item_json js items"
    by (auto simp: board_json_def split: sum.splits json.splits)
  from fb obtain d bs where "subscr r ''data'' = Inr d" "subscr d ''boards'' = Inr bs"
      "subscr0 bs = Inr board"
    by (auto simp: first_of_def and_then_def split: sum.splits)
  then show ?thesis
    using map_result_items [OF all, of py_str b] by (simp add: board_branch_def its)
qed


lemma insert_text_op:
  assumes "op_json j op"
  shows "insert_text j = Inr (JStr (op_text op))"
proof -
  from assms obtain kvs where j: "j = JObj kvs"
    and ins: "map_of kvs ''insert'' = Some (JStr (op_insert op))"
    by (auto simp: op_json_def split: json.splits)
  show ?thesis
  proof (cases "map_of kvs ''attributes''")
    case None
    with assms j have "op_link op = None" by (simp add: op_json_def)
    moreover from None have "''attributes'' \<notin> fst ` set kvs"
      by (simp add: map_of_eq_None_iff)
    ultimately show ?thesis
      by (simp add: insert_text_def j ins op_text_def)
  next
    case (Some a)
    with assms j obtain attrs where a: "a = JObj attrs"
      and link: "map_of attrs ''link'' = map_option JStr (op_link op)"
      by (auto simp: op_json_def split: json.splits)
    from Some have has: "''attributes'' \<in> fst ` set kvs"
      by (metis map_of_eq_None_iff option.distinct(1))
    show ?thesis
    proof (cases "op_link op")
      case None
      with link have "''link'' \<notin> fst ` set attrs"
        by (simp add: map_of_eq_None_iff)
      with None has show ?thesis
        by (simp add: insert_text_def j ins Some a op_text_def)
    next
      case (Some l)
      with link have l: "map_of attrs ''link'' = Some (JStr l)" by simp
      then have "''link'' \<in> fst ` set attrs"
        by (metis map_of_eq_None_iff option.distinct(1))
      with Some has l show ?thesis
        by (simp add: insert_text_def j ins \<open>map_of kvs ''attributes'' = Some a\<close> a op_text_def)
    qed
  qed
qed

lemma read_inserts_ops:
  "list_all2 op_json js ops \<Longrightarrow> read_inserts s js = Inr (s @ block_text ops)"
proof (induction arbitrary: s rule: list_all2_induct)
  case Nil
  show ?case by (simp add: block_text_def)
next
  case (Cons j js op ops)
  show ?case
    by (simp add: insert_text_op [OF Cons.hyps(1)] Cons.IH block_text_def)
qed

lemma read_block_typed:
  assumes "block_json loads j ops"
  shows "read_block loads j = Inr (block_text ops)"
proof -
  from assms obtain parsed js where
    "and_then (subscr j ''content'') (json_loads loads) = Inr parsed"
    "subscr parsed ''deltaFormat'' = Inr (JArr js)" and all: "list_all2 op_json js ops"
    by (auto simp: block_json_def split: sum.splits json.splits)
  then show ?thesis
    using read_inserts_ops [OF all, of "[]"]
    by (cases "subscr j ''content''") (simp_all add: read_block_def)
qed

lemma map_result_blocks:
  "list_all2 (block_json loads) bs blocks \<Longrightarrow>
   map_result (read_block loads) bs = Inr (map block_text blocks)"
proof (induction rule: list_all2_induct)
  case Nil
  show ?case by simp
next
  case (Cons j js ops blocks)
  then show ?case by (simp add: read_block_typed)
qed

lemma doc_branch_typed:
  assumes "doc_json loads r td"
  shows "doc_branch loads d r =
     Inr [\<lparr>text = document_text (td_blocks td),
           extra_info = [(''doc_id'', JInt d), (''doc_name'', td_name td),
                         (''created_by'', td_creator td)]\<rparr>]"
proof -
  from assms obtain data bs where
    fd: "first_of ''docs'' r = Inr data" and
    nm: "subscr data ''name'' = Inr (td_name td)" and
    cr: "and_then (subscr data ''created_by'') (\<lambda>c. subscr c ''name'') = Inr (td_creator td)" and
    bl: "subscr data ''blocks'' = Inr (JArr bs)" and
    all: "list_all2 (block_json loads) bs (td_blocks td)"
    by (auto simp: doc_json_def split: sum.splits json.splits)
  from fd obtain dd ds where "subscr r ''data'' = Inr dd" "subscr dd ''docs'' = Inr ds"
      "subscr0 ds = Inr data"
    by (auto simp: first_of_def and_then_def split: sum.splits)
  moreover from cr obtain c where "subscr data ''created_by'' = Inr c"
      "subscr c ''name'' = Inr (td_creator td)"
    by (cases "subscr data ''created_by''") simp_all
  ultimately show ?thesis
    by (simp add: doc_branch_def bl nm map_result_blocks [OF all] document_text_def)
qed

lemma perform_request_board:
  "b \<noteq> 0 \<Longrightarrow> perform_request self post (Some b) None = send post (board_request self b)"
  by (simp add: perform_request_def board_request_def)

lemma perform_request_doc:
  "d \<noteq> 0 \<Longrightarrow> perform_request self post board_id (Some d) = send post (doc_request self d)"
  by (simp add: perform_request_def doc_request_def Let_def)

lemma load_data_board:
  assumes "b \<noteq> 0" "post (board_request self b) = Inr r" "board_json r items"
  shows "load_data self post loads py_str (Some b) None =
     Inr (map (\<lambda>it. \<lparr>text = spec_item_text it,
                       extra_info = [(''board_id'', JInt b), (''item_id'', item_id it)]\<rparr>) items)"
  using assms
  by (simp add: load_data_def perform_request_board send_def board_branch_typed)

lemma load_data_doc:
  assumes "d \<noteq> 0" "post (doc_request self d) = Inr r" "doc_json loads r td"
  shows "load_data self post loads py_str None (Some d) =
     Inr [\<lparr>text = document_text (td_blocks td),
           extra_info = [(''doc_id'', JInt d), (''doc_name'', td_name td),
                         (''created_by'', td_creator td)]\<rparr>]"
  using assms
  by (simp add: load_data_def perform_request_doc send_def doc_branch_typed)

lemma sample_board_ok: "board_json sample_board_response sample_items"
  by (simp add: board_json_def first_of_def sample_board_response_def sample_board_def
      sample_items_def item_json_def column_json_def text_json_def)

lemma sample_doc_ok: "doc_json sample_loads sample_doc_response sample_doc"
  by (simp add: doc_json_def first_of_def sample_doc_response_def sample_doc_def
      block_json_def op_json_def sample_loads_def)

lemma board_query_neq_doc_query: "board_query b \<noteq> doc_query d"
  by (simp add: board_query_def doc_query_def indent_def eval_nat_numeral)

lemma board_query1_neq_board_query: "board_query1 b \<noteq> board_query b"
  by (simp add: board_query_def board_query1_def indent_def eval_nat_numeral)

lemma board_query1_neq_doc_query: "board_query1 b \<noteq> doc_query d"
  by (simp add: board_query1_def doc_query_def indent_def eval_nat_numeral)

lemma subscr_no_assert: "subscr j k \<noteq> Inl (AssertionError m)"
  by (cases j) (simp_all split: option.splits)

lemma subscr0_no_assert: "subscr0 j \<noteq> Inl (AssertionError m)"
  by (cases j rule: subscr0.cases) simp_all

lemma py_list_no_assert: "py_list j \<noteq> Inl (AssertionError m)"
  by (cases j) simp_all

lemma py_in_no_assert: "py_in k j \<noteq> Inl (AssertionError m)"
  by (cases j) simp_all

lemma str_add_no_assert: "str_add s j \<noteq> Inl (AssertionError m)"
  by (cases j) simp_all

lemma add_str_no_assert: "add_str j s \<noteq> Inl (AssertionError m)"
  by (cases j) simp_all

lemma json_loads_no_assert: "json_loads loads j \<noteq> Inl (AssertionError m)"
  by (cases j) (simp_all split: sum.splits)

lemma send_no_assert: "send post rq \<noteq> Inl (AssertionError m)"
  by (simp add: send_def split: sum.splits)

lemma and_then_no_assert:
  "x \<noteq> Inl (AssertionError m) \<Longrightarrow> (\<And>v. f v \<noteq> Inl (AssertionError m))
   \<Longrightarrow> and_then x f \<noteq> Inl (AssertionError m)"
  by (cases x) simp_all

lemma map_result_no_assert:
  "(\<And>x. f x \<noteq> Inl (AssertionError m)) \<Longrightarrow> map_result f xs \<noteq> Inl (AssertionError m)"
  by (induction xs) (auto split: sum.splits)

lemmas no_assert =
  and_then_no_assert subscr_no_assert subscr0_no_assert py_list_no_assert py_in_no_assert
  str_add_no_assert add_str_no_assert json_loads_no_assert send_no_assert map_result_no_assert

lemma parse_item_values_no_assert: "parse_item_values cv \<noteq> Inl (AssertionError m)"
  unfolding parse_item_values_def by (intro no_assert) simp

lemma parse_data_no_assert: "parse_data item \<noteq> Inl (AssertionError m)"
  unfolding parse_data_def by (intro no_assert parse_item_values_no_assert) simp

lemma if_no_assert:
  "x \<noteq> Inl (AssertionError m) \<Longrightarrow> y \<noteq> Inl (AssertionError m)
   \<Longrightarrow> (if c then x else y) \<noteq> Inl (AssertionError m)"
  by simp

lemma insert_text_no_assert: "insert_text ins \<noteq> Inl (AssertionError m)"
  unfolding insert_text_def
  by (intro no_assert if_no_assert) simp_all

lemma read_inserts_no_assert: "read_inserts s js \<noteq> Inl (AssertionError m)"
proof (induction js arbitrary: s)
  case Nil
  show ?case by simp
next
  case (Cons j js)
  show ?case
    unfolding read_inserts.simps
    by (intro no_assert insert_text_no_assert Cons.IH)
qed

lemma read_block_no_assert: "read_block loads block \<noteq> Inl (AssertionError m)"
  unfolding read_block_def by (intro no_assert read_inserts_no_assert)

lemma board_branch_no_assert: "board_branch py_str b r \<noteq> Inl (AssertionError m)"
  unfolding board_branch_def by (intro no_assert parse_data_no_assert) simp

lemma doc_branch_no_assert: "doc_branch loads d r \<noteq> Inl (AssertionError m)"
  unfolding doc_branch_def by (intro no_assert read_block_no_assert) simp

lemma perform_request_no_assert:
  "perform_request self post board_id doc_id \<noteq> Inl (AssertionError m)"
  by (simp add: perform_request_def Let_def send_no_assert split: option.splits)

lemma load_data_assert_iff:
  "load_data self post loads py_str board_id doc_id = precondition_error
   \<longleftrightarrow> board_id = None \<and> doc_id = None"
proof (cases "board_id = None \<and> doc_id = None")
  case True
  then show ?thesis by (simp add: load_data_def precondition_error_def)
next
  case False
  have "and_then (perform_request self post board_id doc_id) (\<lambda>json_response.
          if_id board_id (\<lambda>b. board_branch py_str b json_response)
            (if_id doc_id (\<lambda>d. doc_branch loads d json_response)
               (Inl (UnboundLocalError ''result''))))
        \<noteq> Inl (AssertionError m)" for m
    by (intro no_assert perform_request_no_assert)
       (cases board_id; cases doc_id;
        simp add: board_branch_no_assert doc_branch_no_assert)
  with False show ?thesis
    by (auto simp: load_data_def precondition_error_def)
qed

lemma and_then_eq_Inr:
  "and_then m f = Inr y \<longleftrightarrow> (\<exists>v. m = Inr v \<and> f v = Inr y)"
  by (cases m) simp_all

lemma map_result_length:
  "map_result f xs = Inr ys \<Longrightarrow> length ys = length xs"
  by (induction xs arbitrary: ys) (auto split: sum.splits)

lemma board_branch_length:
  assumes "board_branch py_str b r = Inr docs"
  shows "\<exists>js. items_of r = Inr js \<and> length docs = length js"
proof -
  from assms obtain d bs data items_array l parsed_items where
    "subscr r ''data'' = Inr d" "subscr d ''boards'' = Inr bs" "subscr0 bs = Inr data"
    "subscr data ''items'' = Inr items_array" "py_list items_array = Inr l"
    and m: "map_result parse_data l = Inr parsed_items"
    and docs: "docs = map (item_document py_str b) parsed_items"
    unfolding board_branch_def and_then_eq_Inr by auto
  then have "items_of r = Inr l"
    by (simp add: items_of_def first_of_def)
  with map_result_length [OF m] docs show ?thesis by simp
qed

lemma doc_branch_length:
  assumes "doc_branch loads d r = Inr docs"
  shows "length docs = 1"
  using assms unfolding doc_branch_def and_then_eq_Inr by auto

lemma load_data_board_branch:
  "b \<noteq> 0 \<Longrightarrow> post (board_request self b) = Inr r \<Longrightarrow>
   load_data self post loads py_str (Some b) None = board_branch py_str b r"
  by (simp add: load_data_def perform_request_board send_def)

lemma load_data_doc_branch:
  "d \<noteq> 0 \<Longrightarrow> post (doc_request self d) = Inr r \<Longrightarrow>
   load_data self post loads py_str None (Some d) = doc_branch loads d r"
  by (simp add: load_data_def perform_request_doc send_def)

lemma load_data_doc_length:
  assumes "d \<noteq> 0" "load_data self post loads py_str None (Some d) = Inr docs"
  shows "length docs = 1"
proof (cases "post (doc_request self d)")
  case (Inl x)
  with assms show ?thesis
    by (simp add: load_data_def perform_request_doc send_def)
next
  case (Inr r)
  with assms have "doc_branch loads d r = Inr docs"
    using load_data_doc_branch [where post = post and self = self and d = d and r = r
        and loads = loads and py_str = py_str]
    by simp
  then show ?thesis by (rule doc_branch_length)
qed

lemma nameless_board_ok: "board_json nameless_board_response []"
  by (simp add: board_json_def first_of_def nameless_board_response_def)

lemma py_in_dict: "py_in k (JObj kvs) = Inr (map_of kvs k \<noteq> None)"
  by (simp add: map_of_eq_None_iff)

lemma item_text_filter:
  "item_text py_str s ivs =
     s @ concat (map (\<lambda>iv. '', '' @ format_field py_str (iv_title iv) @ '': ''
                        @ format_field py_str (iv_value iv))
                   (filter (\<lambda>iv. truthy (iv_value iv)) ivs))"
  by (induction ivs arbitrary: s) simp_all

subsection \<open>The claims\<close>

text \<open>
  \<^bold>\<open>C1\<close> (as amended). The claim has \<open>load_data\<close> fail with the precondition error
  whenever it is not the case that exactly one identifier is given. The assertion on
  line 198 is \<open>board_id != None or doc_id != None\<close>, so the call fails with the
  precondition error exactly when both identifiers are \<open>None\<close>; with both given the
  assertion passes. No other step of the call raises an assertion error, whatever the
  transport and the decoder answer.
\<close>

theorem precondition_exactly_when_both_none:
  "load_data self post loads py_str board_id doc_id = precondition_error
   \<longleftrightarrow> board_id = None \<and> doc_id = None"
  by (rule load_data_assert_iff)

theorem precondition_witness:
  "load_data (MondayReader ''key'') query_server sample_loads str_atoms None None
     = precondition_error \<and>
   load_data (MondayReader ''key'') query_server sample_loads str_atoms (Some 12345) None
     \<noteq> precondition_error"
  using precondition_exactly_when_both_none
          [of "MondayReader ''key''" query_server sample_loads str_atoms None None]
        precondition_exactly_when_both_none
          [of "MondayReader ''key''" query_server sample_loads str_atoms "Some 12345" None]
  by simp

text \<open>
  With both identifiers given the call goes past the assertion: here it ends with a
  missing key, not with the precondition error.
\<close>

theorem precondition_counterexample:
  "load_data (MondayReader ''key'') query_server sample_loads str_atoms (Some 12345) (Some 67890)
     \<noteq> precondition_error"
  by (simp add: load_data_def perform_request_def query_server_def send_def
      board_branch_def sample_doc_response_def precondition_error_def)

text \<open>
  \<^bold>\<open>C2\<close> (as amended). For a doc response of the expected shape \<open>load_data\<close>
  returns exactly one document. Its text is not the blocks joined by a newline with the
  operations of a block joined by a tab: line 137 appends a space and a tab after the text
  of every operation, the last one included, and line 223 joins the blocks with a space
  and a newline.
\<close>

theorem doc_text_space_tab_space_newline:
  assumes "d \<noteq> 0" "post (doc_request self d) = Inr r" "doc_json loads r td"
  shows "\<exists>m. load_data self post loads py_str None (Some d) =
     Inr [\<lparr>text = join [CHR '' '', CHR 0x0A]
                    (map (\<lambda>ops. concat (map (\<lambda>op. op_text op @ [CHR '' '', CHR 0x09]) ops))
                       (td_blocks td)),
           extra_info = m\<rparr>]"
  using assms
    load_data_doc [where post = post and self = self and d = d and r = r and loads = loads
      and td = td and py_str = py_str]
  by (simp add: document_text_def block_text_def [abs_def])

theorem doc_text_witness:
  "(67890::int) \<noteq> 0 \<and>
   doc_server (doc_request (MondayReader ''key'') 67890) = Inr sample_doc_response \<and>
   doc_json sample_loads sample_doc_response sample_doc \<and>
   (\<exists>m. load_data (MondayReader ''key'') doc_server sample_loads str_atoms None (Some 67890) =
      Inr [\<lparr>text = ''Hello'' @ [CHR '' '', CHR 0x09] @ ''site url: http://x''
                    @ [CHR '' '', CHR 0x09] @ [CHR '' '', CHR 0x0A]
                    @ ''Bye'' @ [CHR '' '', CHR 0x09],
            extra_info = m\<rparr>])"
proof -
  have a: "(67890::int) \<noteq> 0" by simp
  have b: "doc_server (doc_request (MondayReader ''key'') 67890) = Inr sample_doc_response"
    by (simp add: doc_server_def)
  have c: "doc_json sample_loads sample_doc_response sample_doc"
    by (rule sample_doc_ok)
  from a b c
    doc_text_space_tab_space_newline [where post = doc_server and self = "MondayReader ''key''"
      and d = 67890 and r = sample_doc_response and loads = sample_loads and td = sample_doc
      and py_str = str_atoms]
  show ?thesis
    by (simp add: sample_doc_def op_text_def)
qed

text \<open>
  On the sample doc the text that is returned differs from the text the claim describes.
\<close>

theorem doc_text_counterexample:
  "load_data (MondayReader ''key'') doc_server sample_loads str_atoms None (Some 67890)
     \<noteq> Inr [\<lparr>text = spec_doc_text (td_blocks sample_doc),
               extra_info = [(''doc_id'', JInt 67890), (''doc_name'', JStr ''Plan''),
                             (''created_by'', JStr ''Ada'')]\<rparr>]"
proof -
  have "doc_server (doc_request (MondayReader ''key'') 67890) = Inr sample_doc_response"
    by (simp add: doc_server_def)
  then have "load_data (MondayReader ''key'') doc_server sample_loads str_atoms None (Some 67890)
      = Inr [\<lparr>text = document_text (td_blocks sample_doc),
               extra_info = [(''doc_id'', JInt 67890), (''doc_name'', td_name sample_doc),
                             (''created_by'', td_creator sample_doc)]\<rparr>]"
    using load_data_doc [where post = doc_server and self = "MondayReader ''key''"
        and d = 67890 and r = sample_doc_response and loads = sample_loads and td = sample_doc]
      sample_doc_ok
    by simp
  moreover have "document_text (td_blocks sample_doc) \<noteq> spec_doc_text (td_blocks sample_doc)"
    by (simp add: document_text_def spec_doc_text_def block_text_def op_text_def sample_doc_def)
  ultimately show ?thesis by simp
qed

text \<open>
  \<^bold>\<open>C3\<close>. In board mode, for a response of the expected shape, the text of the
  document of each item is \<open>name: <name>\<close> followed by \<open>, <title>: <value>\<close> for each
  column whose value is a non-empty string, in the order of the response; a column whose
  text is empty or null adds nothing (\<open>column_part\<close> is the empty string for it).
\<close>

theorem board_item_texts:
  assumes "b \<noteq> 0" "post (board_request self b) = Inr r" "board_json r items"
  shows "\<exists>docs. load_data self post loads py_str (Some b) None = Inr docs \<and>
     map text docs =
       map (\<lambda>it. ''name: '' @ item_name it @ concat (map column_part (item_columns it))) items"
  using assms
    load_data_board [where post = post and self = self and b = b and r = r and items = items
      and loads = loads and py_str = py_str]
  by (simp add: spec_item_text_def [abs_def] comp_def)

theorem board_item_texts_witness:
  "(12345::int) \<noteq> 0 \<and>
   board_server (board_request (MondayReader ''key'') 12345) = Inr sample_board_response \<and>
   board_json sample_board_response sample_items \<and>
   (\<exists>docs. load_data (MondayReader ''key'') board_server sample_loads str_atoms (Some 12345) None
              = Inr docs \<and>
      map text docs = [''name: Write, Status: Done, Notes: soon'', ''name: Review''])"
proof -
  have a: "(12345::int) \<noteq> 0" by simp
  have b: "board_server (board_request (MondayReader ''key'') 12345) = Inr sample_board_response"
    by (simp add: board_server_def)
  have c: "board_json sample_board_response sample_items"
    by (rule sample_board_ok)
  from a b c
    board_item_texts [where post = board_server and self = "MondayReader ''key''"
      and b = 12345 and r = sample_board_response and items = sample_items
      and loads = sample_loads and py_str = str_atoms]
  show ?thesis
    by (simp add: sample_items_def column_part_def)
qed

text \<open>
  \<^bold>\<open>C4\<close>. In board mode \<open>load_data\<close> returns one document per item of the first
  board of the response: for a response of the expected shape it returns, with as many
  documents as items (none for a board without items), and whatever the response is, a
  call that returns has as many documents as \<open>list(data['items'])\<close> has elements. In
  doc mode it returns exactly one document: it does so for a response of the expected
  shape with any number of blocks, and no call that returns has another count.
\<close>

theorem document_count:
  "(b \<noteq> 0 \<and> post (board_request self b) = Inr r \<and> board_json r items \<longrightarrow>
      (\<exists>docs. load_data self post loads py_str (Some b) None = Inr docs \<and>
         length docs = length items)) \<and>
   (b \<noteq> 0 \<and> post (board_request self b) = Inr r \<and>
      load_data self post loads py_str (Some b) None = Inr docs \<longrightarrow>
      (\<exists>js. items_of r = Inr js \<and> length docs = length js)) \<and>
   (d \<noteq> 0 \<and> post (doc_request self d) = Inr r' \<and> doc_json loads r' td \<longrightarrow>
      (\<exists>docs. load_data self post loads py_str None (Some d) = Inr docs \<and> length docs = 1)) \<and>
   (d \<noteq> 0 \<and> load_data self post loads py_str None (Some d) = Inr docs' \<longrightarrow>
      length docs' = 1)"
proof (intro conjI impI)
  assume "b \<noteq> 0 \<and> post (board_request self b) = Inr r \<and> board_json r items"
  then show "\<exists>docs. load_data self post loads py_str (Some b) None = Inr docs \<and>
      length docs = length items"
    using load_data_board [where post = post and self = self and b = b and r = r
        and items = items and loads = loads and py_str = py_str]
    by simp
next
  assume "b \<noteq> 0 \<and> post (board_request self b) = Inr r \<and>
      load_data self post loads py_str (Some b) None = Inr docs"
  then have "board_branch py_str b r = Inr docs"
    using load_data_board_branch [where post = post and self = self and b = b and r = r
        and loads = loads and py_str = py_str]
    by simp
  then show "\<exists>js. items_of r = Inr js \<and> length docs = length js"
    by (rule board_branch_length)
next
  assume "d \<noteq> 0 \<and> post (doc_request self d) = Inr r' \<and> doc_json loads r' td"
  then show "\<exists>docs. load_data self post loads py_str None (Some d) = Inr docs \<and> length docs = 1"
    using load_data_doc [where post = post and self = self and d = d and r = r'
        and td = td and loads = loads and py_str = py_str]
    by simp
next
  assume "d \<noteq> 0 \<and> load_data self post loads py_str None (Some d) = Inr docs'"
  then show "length docs' = 1"
    using load_data_doc_length by blast
qed

theorem document_count_witness:
  "(\<exists>docs. load_data (MondayReader ''key'') board_server sample_loads str_atoms (Some 12345) None
        = Inr docs \<and> length docs = 2) \<and>
   (\<exists>docs. load_data (MondayReader ''key'') nameless_server sample_loads str_atoms (Some 12345) None
        = Inr docs \<and> length docs = 0) \<and>
   (\<exists>docs. load_data (MondayReader ''key'') doc_server sample_loads str_atoms None (Some 67890)
        = Inr docs \<and> length docs = 1) \<and>
   (\<exists>js. items_of sample_board_response = Inr js \<and> length js = 2)"
proof -
  have "board_server (board_request (MondayReader ''key'') 12345) = Inr sample_board_response"
    by (simp add: board_server_def)
  with sample_board_ok
    document_count [where post = board_server and self = "MondayReader ''key''"
      and b = 12345 and r = sample_board_response and items = sample_items
      and loads = sample_loads and py_str = str_atoms, THEN conjunct1]
  have one: "\<exists>docs. load_data (MondayReader ''key'') board_server sample_loads str_atoms
      (Some 12345) None = Inr docs \<and> length docs = 2"
    by (simp add: sample_items_def numeral_2_eq_2)
  have "nameless_server (board_request (MondayReader ''key'') 12345) = Inr nameless_board_response"
    by (simp add: nameless_server_def)
  with nameless_board_ok
    document_count [where post = nameless_server and self = "MondayReader ''key''"
      and b = 12345 and r = nameless_board_response and items = "[]"
      and loads = sample_loads and py_str = str_atoms, THEN conjunct1]
  have two: "\<exists>docs. load_data (MondayReader ''key'') nameless_server sample_loads str_atoms
      (Some 12345) None = Inr docs \<and> length docs = 0"
    by simp
  have "doc_server (doc_request (MondayReader ''key'') 67890) = Inr sample_doc_response"
    by (simp add: doc_server_def)
  with sample_doc_ok
    document_count [where post = doc_server and self = "MondayReader ''key''"
      and d = 67890 and r' = sample_doc_response and td = sample_doc
      and loads = sample_loads and py_str = str_atoms, THEN conjunct2, THEN conjunct2,
      THEN conjunct1]
  have three: "\<exists>docs. load_data (MondayReader ''key'') doc_server sample_loads str_atoms
      None (Some 67890) = Inr docs \<and> length docs = 1"
    by simp
  have p: "board_server (board_request (MondayReader ''key'') 12345) = Inr sample_board_response"
    by (simp add: board_server_def)
  from sample_board_ok p
  have ld: "load_data (MondayReader ''key'') board_server sample_loads str_atoms (Some 12345) None
      = Inr (map (\<lambda>it. \<lparr>text = spec_item_text it,
                          extra_info = [(''board_id'', JInt 12345), (''item_id'', item_id it)]\<rparr>)
               sample_items)"
    using load_data_board [where post = board_server and self = "MondayReader ''key''"
        and b = 12345 and r = sample_board_response and items = sample_items
        and loads = sample_loads and py_str = str_atoms]
    by simp
  from p ld
    document_count [where post = board_server and self = "MondayReader ''key''"
      and b = 12345 and r = sample_board_response and loads = sample_loads
      and py_str = str_atoms
      and docs = "map (\<lambda>it. \<lparr>text = spec_item_text it,
                          extra_info = [(''board_id'', JInt 12345), (''item_id'', item_id it)]\<rparr>)
               sample_items", THEN conjunct2, THEN conjunct1]
  have four: "\<exists>js. items_of sample_board_response = Inr js \<and> length js = 2"
    by (auto simp: sample_items_def numeral_2_eq_2)
  from one two three four show ?thesis by simp
qed

text \<open>
  \<^bold>\<open>C5\<close>. For a response of the expected shape, the metadata of the document of each
  board item is \<open>board_id\<close>, the requested identifier, and \<open>item_id\<close>, the \<open>id\<close> of
  that item; the metadata of the document of a doc is \<open>doc_id\<close>, the requested
  identifier, \<open>doc_name\<close>, the doc's \<open>name\<close>, and \<open>created_by\<close>, the \<open>name\<close> under
  the doc's \<open>created_by\<close>.
\<close>

theorem document_metadata:
  "(b \<noteq> 0 \<and> post (board_request self b) = Inr r \<and> board_json r items \<longrightarrow>
      (\<exists>docs. load_data self post loads py_str (Some b) None = Inr docs \<and>
         map extra_info docs =
           map (\<lambda>it. [(''board_id'', JInt b), (''item_id'', item_id it)]) items)) \<and>
   (d \<noteq> 0 \<and> post (doc_request self d) = Inr r' \<and> doc_json loads r' td \<longrightarrow>
      (\<exists>t. load_data self post loads py_str None (Some d) =
         Inr [\<lparr>text = t,
               extra_info = [(''doc_id'', JInt d), (''doc_name'', td_name td),
                             (''created_by'', td_creator td)]\<rparr>]))"
proof (intro conjI impI)
  assume "b \<noteq> 0 \<and> post (board_request self b) = Inr r \<and> board_json r items"
  then show "\<exists>docs. load_data self post loads py_str (Some b) None = Inr docs \<and>
      map extra_info docs = map (\<lambda>it. [(''board_id'', JInt b), (''item_id'', item_id it)]) items"
    using load_data_board [where post = post and self = self and b = b and r = r
        and items = items and loads = loads and py_str = py_str]
    by (simp add: comp_def)
next
  assume "d \<noteq> 0 \<and> post (doc_request self d) = Inr r' \<and> doc_json loads r' td"
  then show "\<exists>t. load_data self post loads py_str None (Some d) =
      Inr [\<lparr>text = t, extra_info = [(''doc_id'', JInt d), (''doc_name'', td_name td),
                                    (''created_by'', td_creator td)]\<rparr>]"
    using load_data_doc [where post = post and self = self and d = d and r = r'
        and td = td and loads = loads and py_str = py_str]
    by simp
qed

theorem document_metadata_witness:
  "(\<exists>docs. load_data (MondayReader ''key'') board_server sample_loads str_atoms (Some 12345) None
        = Inr docs \<and>
      map extra_info docs = [[(''board_id'', JInt 12345), (''item_id'', JStr ''101'')],
                             [(''board_id'', JInt 12345), (''item_id'', JStr ''102'')]]) \<and>
   (\<exists>t. load_data (MondayReader ''key'') doc_server sample_loads str_atoms None (Some 67890) =
      Inr [\<lparr>text = t,
            extra_info = [(''doc_id'', JInt 67890), (''doc_name'', JStr ''Plan''),
                          (''created_by'', JStr ''Ada'')]\<rparr>])"
proof -
  have "board_server (board_request (MondayReader ''key'') 12345) = Inr sample_board_response"
    by (simp add: board_server_def)
  with sample_board_ok
    document_metadata [where post = board_server and self = "MondayReader ''key''"
      and b = 12345 and r = sample_board_response and items = sample_items
      and loads = sample_loads and py_str = str_atoms, THEN conjunct1]
  have one: "\<exists>docs. load_data (MondayReader ''key'') board_server sample_loads str_atoms
      (Some 12345) None = Inr docs \<and>
      map extra_info docs = [[(''board_id'', JInt 12345), (''item_id'', JStr ''101'')],
                             [(''board_id'', JInt 12345), (''item_id'', JStr ''102'')]]"
    by (simp add: sample_items_def)
  have "doc_server (doc_request (MondayReader ''key'') 67890) = Inr sample_doc_response"
    by (simp add: doc_server_def)
  with sample_doc_ok
    document_metadata [where post = doc_server and self = "MondayReader ''key''"
      and d = 67890 and r' = sample_doc_response and td = sample_doc
      and loads = sample_loads and py_str = str_atoms, THEN conjunct2]
  have two: "\<exists>t. load_data (MondayReader ''key'') doc_server sample_loads str_atoms None
      (Some 67890) =
      Inr [\<lparr>text = t,
            extra_info = [(''doc_id'', JInt 67890), (''doc_name'', JStr ''Plan''),
                          (''created_by'', JStr ''Ada'')]\<rparr>]"
    by (simp add: sample_doc_def)
  from one two show ?thesis by simp
qed

text \<open>
  \<^bold>\<open>C6\<close>. For an insert operation (a dict with an \<open>insert\<close> entry) the value of
  \<open>text\<close> that line 137 appends to the block is the insert text alone when the operation
  has no \<open>attributes\<close> and when its attributes have no \<open>link\<close>, and the insert text
  followed by \<open> url: <link>\<close> when the attributes have a link.
\<close>

theorem insert_text_link:
  assumes "map_of kvs ''insert'' = Some v"
  shows
    "(map_of kvs ''attributes'' = None \<longrightarrow> insert_text (JObj kvs) = Inr v) \<and>
     (\<forall>attrs. map_of kvs ''attributes'' = Some (JObj attrs) \<and> map_of attrs ''link'' = None
        \<longrightarrow> insert_text (JObj kvs) = Inr v) \<and>
     (\<forall>attrs s l. v = JStr s \<and> map_of kvs ''attributes'' = Some (JObj attrs) \<and>
          map_of attrs ''link'' = Some (JStr l)
        \<longrightarrow> insert_text (JObj kvs) = Inr (JStr (s @ '' url: '' @ l)))"
  using assms by (simp add: insert_text_def py_in_dict del: py_in.simps)

theorem insert_text_link_witness:
  "insert_text (JObj [(''insert'', JStr ''Hello'')]) = Inr (JStr ''Hello'') \<and>
   insert_text (JObj [(''insert'', JStr ''Bye''), (''attributes'', JObj [(''bold'', JBool True)])])
     = Inr (JStr ''Bye'') \<and>
   insert_text (JObj [(''insert'', JStr ''site''),
                      (''attributes'', JObj [(''link'', JStr ''http://x'')])])
     = Inr (JStr ''site url: http://x'')"
  using
    insert_text_link [of "[(''insert'', JStr ''Hello'')]" "JStr ''Hello''"]
    insert_text_link [of "[(''insert'', JStr ''Bye''),
                           (''attributes'', JObj [(''bold'', JBool True)])]" "JStr ''Bye''"]
    insert_text_link [of "[(''insert'', JStr ''site''),
                           (''attributes'', JObj [(''link'', JStr ''http://x'')])]"
                         "JStr ''site''"]
  by simp

text \<open>
  \<^bold>\<open>C7\<close>. With both identifiers given and non-zero the assertion passes and
  \<open>load_data\<close> takes its board branch, but \<open>_perform_request\<close> tests \<open>doc_id\<close> with
  a second \<open>if\<close>, not an \<open>elif\<close>: the board query it has built is replaced, the doc
  query is the one that is sent, and its answer is read as a board. With a transport that
  answers the doc query with the doc, the call ends with the missing key \<open>boards\<close>.
\<close>

theorem both_ids_doc_query_read_as_board:
  assumes "b \<noteq> 0" "d \<noteq> 0"
  shows "load_data self post loads py_str (Some b) (Some d) =
     and_then (send post (doc_request self d)) (board_branch py_str b)"
  using assms by (simp add: load_data_def perform_request_doc)

theorem both_ids_witness:
  "load_data (MondayReader ''key'') query_server sample_loads str_atoms (Some 12345) (Some 67890)
     = Inl (KeyError (KStr ''boards''))"
  using both_ids_doc_query_read_as_board
    [of 12345 67890 "MondayReader ''key''" query_server sample_loads str_atoms]
  by (simp add: send_def query_server_def doc_request_def board_branch_def
      sample_doc_response_def)




text \<open>
  \<^bold>\<open>C9\<close> (as amended). With one identifier 0 and the other \<open>None\<close> the assertion
  passes, since 0 is not \<open>None\<close>. The call then fails with an unbound-variable error,
  but not on \<open>return result\<close>: neither test of \<open>_perform_request\<close> assigns \<open>query\<close>,
  and line 182 reads it. This is so whatever the transport would answer: no request is
  sent, and the branches of \<open>load_data\<close> are not reached.
\<close>

theorem zero_id_unbound_query:
  "load_data self post loads py_str (Some 0) None = Inl (UnboundLocalError ''query'') \<and>
   load_data self post loads py_str None (Some 0) = Inl (UnboundLocalError ''query'')"
  by (simp add: load_data_def perform_request_def)

theorem zero_id_witness:
  "load_data (MondayReader ''key'') board_server sample_loads str_atoms (Some 0) None
     = Inl (UnboundLocalError ''query'') \<and>
   load_data (MondayReader ''key'') doc_server sample_loads str_atoms None (Some 0)
     = Inl (UnboundLocalError ''query'')"
  using zero_id_unbound_query [of "MondayReader ''key''" board_server sample_loads str_atoms]
    zero_id_unbound_query [of "MondayReader ''key''" doc_server sample_loads str_atoms]
  by simp

text \<open>The error is not the one for \<open>result\<close>.\<close>

theorem zero_id_counterexample:
  "load_data (MondayReader ''key'') board_server sample_loads str_atoms (Some 0) None
     \<noteq> Inl (UnboundLocalError ''result'')"
  by (simp add: load_data_def perform_request_def)

text \<open>
  \<^bold>\<open>C10\<close> (as amended). For a non-zero board identifier, a transport that gives
  the requests of both classes the same answer, and an answer whose first board has the key
  \<open>name\<close>, \<open>load_data\<close> of the shadowed class and \<open>load_data\<close> of the effective class
  with \<open>doc_id = None\<close> have the same result: the same documents, or the same error.
\<close>

theorem first_class_agrees:
  assumes "b \<noteq> 0"
    and "post (board_request1 self b) = Inr r" and "post (board_request self b) = Inr r"
    and "first_of ''boards'' r = Inr board" and "subscr board ''name'' = Inr n"
  shows "load_data1 self post py_str b = load_data self post loads py_str (Some b) None"
proof -
  from assms(4) obtain d bs where r: "subscr r ''data'' = Inr d" "subscr d ''boards'' = Inr bs"
      "subscr0 bs = Inr board"
    by (auto simp: first_of_def and_then_eq_Inr)
  have one: "load_data1 self post py_str b =
      and_then (subscr board ''items'') (\<lambda>its.
      and_then (py_list its) (\<lambda>l.
      and_then (map_result parse_data l) (\<lambda>parsed_items.
      Inr (map (item_document py_str b) parsed_items))))"
    using assms(2) by (simp add: load_data1_def perform_request1_def board_request1_def
        send_def r assms(5))
  have two: "load_data self post loads py_str (Some b) None =
      and_then (subscr board ''items'') (\<lambda>its.
      and_then (py_list its) (\<lambda>l.
      and_then (map_result parse_data l) (\<lambda>parsed_items.
      Inr (map (item_document py_str b) parsed_items))))"
    using assms(1,3) by (simp add: load_data_board_branch board_branch_def r)
  from one two show ?thesis by simp
qed

theorem first_class_agrees_witness:
  "load_data1 (MondayReader ''key'') board_server str_atoms 12345 =
   load_data (MondayReader ''key'') board_server sample_loads str_atoms (Some 12345) None"
proof -
  have "first_of ''boards'' sample_board_response = Inr sample_board"
    by (simp add: first_of_def sample_board_response_def)
  moreover have "subscr sample_board ''name'' = Inr (JStr ''Tasks'')"
    by (simp add: sample_board_def)
  ultimately show ?thesis
    using first_class_agrees [where post = board_server and self = "MondayReader ''key''"
        and b = 12345 and r = sample_board_response and board = sample_board
        and n = "JStr ''Tasks''" and py_str = str_atoms and loads = sample_loads]
    by (simp add: board_server_def)
qed

text \<open>
  The first class reads \<open>board_data["name"]\<close> on line 73 and the second never does: for
  a board without that key the first class fails where the second returns. The first
  class also accepts the identifier 0, for which the second sends nothing.
\<close>

theorem first_class_counterexample:
  "load_data1 (MondayReader ''key'') nameless_server str_atoms 12345
     = Inl (KeyError (KStr ''name'')) \<and>
   load_data (MondayReader ''key'') nameless_server sample_loads str_atoms (Some 12345) None
     = Inr []"
  by (simp add: load_data1_def perform_request1_def load_data_def perform_request_def send_def
      nameless_server_def nameless_board_response_def board_branch_def)

lemma first_class_zero_id:
  "load_data1 (MondayReader ''key'') board_server str_atoms 0 \<noteq>
   load_data (MondayReader ''key'') board_server sample_loads str_atoms (Some 0) None"
  by (simp add: load_data1_def perform_request1_def load_data_def perform_request_def send_def
      board_server_def sample_board_response_def sample_board_def parse_data_def
      parse_item_values_def)

end
